theory Spec2Isabelle
  imports Main "HOL-Library.Sublist"
begin

section \<open>Python string operations used by the quiz session\<close>

text \<open>
  A Python \<open>str\<close> is a sequence of Unicode code points: texts are lists of integers, and
  \<open>lit\<close> gives the code points of a literal of the source file, which is ASCII.
\<close>

type_synonym codepoint = int

type_synonym pystr = "codepoint list"

definition lit :: "string \<Rightarrow> pystr" where
  "lit s = map of_char s"

definition isspace :: "codepoint \<Rightarrow> bool" where
  \<comment> \<open>the characters \<open>str.isspace\<close> accepts, which are those \<open>str.strip\<close> removes\<close>
  "isspace c =
     ((9 \<le> c \<and> c \<le> 13) \<or> (28 \<le> c \<and> c \<le> 32) \<or> c = 0x85 \<or> c = 0xA0 \<or> c = 0x1680
      \<or> (0x2000 \<le> c \<and> c \<le> 0x200A) \<or> c = 0x2028 \<or> c = 0x2029 \<or> c = 0x202F
      \<or> c = 0x205F \<or> c = 0x3000)"

definition strip :: "pystr \<Rightarrow> pystr" where
  \<comment> \<open>\<open>s.strip()\<close>: leading and trailing whitespace removed\<close>
  "strip s = rev (dropWhile isspace (rev (dropWhile isspace s)))"

text \<open>
  \<open>str.upper\<close> maps each character on its own, to one character or to several. It maps
  the ASCII letters \<open>a\<close> to \<open>z\<close> to \<open>A\<close> to \<open>Z\<close> and leaves the other ASCII characters
  and the whitespace characters as they are. What it does to every other character is the
  Unicode case table, which is not part of the program: the table is the parameter
  \<open>special\<close>, and every property below holds whatever the table is.
\<close>

definition upper_char :: "(codepoint \<Rightarrow> pystr) \<Rightarrow> codepoint \<Rightarrow> pystr" where
  "upper_char special c =
     (if 0 \<le> c \<and> c < 128 then [if 97 \<le> c \<and> c \<le> 122 then c - 32 else c]
      else if isspace c then [c]
      else special c)"

definition upper :: "(codepoint \<Rightarrow> pystr) \<Rightarrow> pystr \<Rightarrow> pystr" where
  \<comment> \<open>\<open>s.upper()\<close>\<close>
  "upper special s = concat (map (upper_char special) s)"

fun is_in :: "pystr \<Rightarrow> pystr \<Rightarrow> bool" where
  \<comment> \<open>\<open>sub in s\<close>: \<open>sub\<close> occurs in \<open>s\<close> as a contiguous piece\<close>
  "is_in sub [] = (sub = [])"
| "is_in sub (c # cs) = (prefix sub (c # cs) \<or> is_in sub cs)"

definition startswith :: "pystr \<Rightarrow> pystr \<Rightarrow> bool" where
  \<comment> \<open>\<open>s.startswith(p)\<close>\<close>
  "startswith s p = prefix p s"

fun str_partition :: "pystr \<Rightarrow> pystr \<Rightarrow> (pystr \<times> pystr) option" where
  \<comment> \<open>the text before and after the leftmost occurrence of \<open>sep\<close> in \<open>s\<close>, if there is one\<close>
  "str_partition sep [] = (if sep = [] then Some ([], []) else None)"
| "str_partition sep (c # cs) =
     (if prefix sep (c # cs) then Some ([], drop (length sep) (c # cs))
      else case str_partition sep cs of
             None \<Rightarrow> None
           | Some (before, after) \<Rightarrow> Some (c # before, after))"

lemma str_partition_shorter:
  "str_partition sep s = Some (before, after) \<Longrightarrow> sep \<noteq> [] \<Longrightarrow> length after < length s"
proof (induction s arbitrary: before)
  case Nil
  then show ?case by simp
next
  case (Cons c cs)
  show ?case
  proof (cases "prefix sep (c # cs)")
    case True
    with Cons.prems show ?thesis by auto
  next
    case False
    with Cons.prems obtain b where "str_partition sep cs = Some (b, after)"
      by (auto split: option.splits)
    with Cons.IH Cons.prems(2) show ?thesis by fastforce
  qed
qed

function pieces :: "pystr \<Rightarrow> pystr \<Rightarrow> pystr list" where
  \<comment> \<open>the pieces of \<open>s\<close> between the leftmost non-overlapping occurrences of \<open>sep\<close>\<close>
  "pieces sep s =
     (if sep = [] then [s]
      else case str_partition sep s of
             None \<Rightarrow> [s]
           | Some (before, after) \<Rightarrow> before # pieces sep after)"
  by pat_completeness auto
termination
  by (relation "measure (\<lambda>(sep, s). length s)") (auto dest: str_partition_shorter)

function replace_all :: "pystr \<Rightarrow> pystr \<Rightarrow> pystr \<Rightarrow> pystr" where
  \<comment> \<open>every leftmost non-overlapping occurrence of a non-empty \<open>old\<close> replaced by \<open>new\<close>\<close>
  "replace_all old new s =
     (if old = [] then s
      else case str_partition old s of
             None \<Rightarrow> s
           | Some (before, after) \<Rightarrow> before @ new @ replace_all old new after)"
  by pat_completeness auto
termination
  by (relation "measure (\<lambda>(old, new, s). length s)") (auto dest: str_partition_shorter)

declare pieces.simps [simp del] replace_all.simps [simp del]

section \<open>Exceptions\<close>

text \<open>
  The code tells \<open>StopCandidateException\<close> from every other subclass of \<open>Exception\<close>;
  each value carries the text \<open>str(e)\<close> of the exception. A call either raises (\<open>Inl\<close>)
  or returns (\<open>Inr\<close>).
\<close>

datatype exn = StopCandidateException pystr | Exception pystr

fun str :: "exn \<Rightarrow> pystr" where
  "str (StopCandidateException m) = m"
| "str (Exception m) = m"

definition split :: "pystr \<Rightarrow> pystr \<Rightarrow> exn + pystr list" where
  \<comment> \<open>\<open>s.split(sep)\<close>; an empty separator raises \<open>ValueError\<close>\<close>
  "split s sep = (if sep = [] then Inl (Exception (lit ''empty separator'')) else Inr (pieces sep s))"

definition replace :: "pystr \<Rightarrow> pystr \<Rightarrow> pystr \<Rightarrow> pystr" where
  \<comment> \<open>\<open>s.replace(old, new)\<close>; an empty \<open>old\<close> matches before every character and at the end\<close>
  "replace s old new =
     (if old = [] then new @ concat (map (\<lambda>c. c # new) s) else replace_all old new s)"

section \<open>Collaborators and module globals\<close>

text \<open>
  The three collaborators are parameters of the model. \<open>send_message\<close> is
  \<open>self.chat.send_message(prompt)\<close> followed by the read of \<open>.text\<close>; the chat object is
  stateful, so the call also gives the chat's next state. \<open>encode\<close> is
  \<open>sentence_model.encode(text).tolist()\<close>, and \<open>query\<close> is the index's \<open>query\<close> in the
  namespace \<open>auto_loan_resources\<close> with \<open>top_k = 1\<close>, returning the metadata of the matches.
\<close>

record ('c, 'v) services =
  send_message :: "'c \<Rightarrow> pystr \<Rightarrow> (exn + pystr) \<times> 'c"
  encode :: "pystr \<Rightarrow> exn + 'v"
  query :: "'v \<Rightarrow> exn + (pystr \<rightharpoonup> pystr) list"

datatype 'v call = Send_Message pystr | Encode pystr | Query 'v

text \<open>
  The values the module global \<open>index\<close> can hold: \<open>None\<close>, the Pinecone index handle, or
  the view function that the route \<open>/\<close> defines under the same name.
\<close>

datatype index_value = NoneType | Pinecone_Index | View_Function

fun truthy :: "index_value \<Rightarrow> bool" where
  "truthy NoneType = False"
| "truthy Pinecone_Index = True"
| "truthy View_Function = True"

definition configured_index :: "pystr option \<Rightarrow> bool \<Rightarrow> index_value" where
  \<comment> \<open>lines 29 to 44: \<open>key\<close> is the environment variable, \<open>connects\<close> says that \<open>pc.Index\<close> returns\<close>
  "configured_index key connects =
     (if key \<noteq> None \<and> key \<noteq> Some [] then (if connects then Pinecone_Index else NoneType)
      else NoneType)"

definition module_index :: "pystr option \<Rightarrow> bool \<Rightarrow> index_value" where
  \<comment> \<open>the global \<open>index\<close> once the module is loaded: line 207 binds the name again\<close>
  "module_index key connects =
     (let index = configured_index key connects;
          index = View_Function
      in index)"

definition safety_instruction :: pystr where
  "safety_instruction =
     (lit ''Please ensure that the content you generate is safe, appropriate, and free from explicit or harmful language.'')"

section \<open>The quiz session\<close>

text \<open>
  \<open>chat\<close>, \<open>current_question\<close> and \<open>correct_answer\<close> are the attributes of \<open>ChatbotAPI\<close>.
  \<open>calls\<close> is a ghost field: the collaborator calls made so far, oldest first.
\<close>

record ('c, 'v) session =
  chat :: 'c
  current_question :: pystr
  correct_answer :: pystr
  calls :: "'v call list"

record resource_info =
  title :: pystr
  link :: pystr
  description :: pystr

text \<open>
  The dictionary \<open>evaluate_answer\<close> returns; the keys \<open>correct_answer\<close> and \<open>resource\<close> may
  be absent.
\<close>

record evaluation =
  is_correct :: bool
  message :: pystr
  answer :: "pystr option"
  resource :: "resource_info option"

definition init :: "'c \<Rightarrow> ('c, 'v) session" where
  \<comment> \<open>\<open>__init__\<close>; \<open>c\<close> is the chat that \<open>model.start_chat(history=[])\<close> returns\<close>
  "init c = \<lparr>chat = c, current_question = [], correct_answer = [], calls = []\<rparr>"

definition chat_send ::
  "('c, 'v) services \<Rightarrow> pystr \<Rightarrow> ('c, 'v) session \<Rightarrow> (exn + pystr) \<times> ('c, 'v) session" where
  "chat_send svc prompt s =
     (case send_message svc (chat s) prompt of
        (r, c) \<Rightarrow> (r, s\<lparr>chat := c, calls := calls s @ [Send_Message prompt]\<rparr>))"

definition question_instruction :: "pystr \<Rightarrow> pystr" where
  "question_instruction topic =
     (lit ''Generate a specific multiple choice or short answer question about '') @ topic
     @ lit ''. Make it educational and practical. Only provide the question, nothing else.''"

definition generate_question ::
  "('c, 'v) services \<Rightarrow> pystr \<Rightarrow> ('c, 'v) session \<Rightarrow> (exn + pystr) \<times> ('c, 'v) session" where
  "generate_question svc topic s =
     (case chat_send svc (safety_instruction @ lit '' '' @ question_instruction topic) s of
        (Inr text, s1) \<Rightarrow>
          (let question = strip text;
               question = (if startswith question (lit ''Question:'')
                           then strip (replace question (lit ''Question:'') []) else question)
           in (Inr question, s1\<lparr>current_question := question\<rparr>))
      | (Inl (StopCandidateException m), s1) \<Rightarrow>
          (let question = lit ''What is the recommended amount for an emergency fund?''
           in (Inr question, s1\<lparr>current_question := question\<rparr>))
      | (Inl (Exception m), s1) \<Rightarrow>
          (let question = lit ''What factors should you consider when choosing a credit card?''
           in (Inr question, s1\<lparr>current_question := question\<rparr>)))"

definition answer_instruction :: "pystr \<Rightarrow> pystr" where
  "answer_instruction q =
     (lit ''Provide a clear, concise answer to this question: '') @ q
     @ lit ''. Give a direct answer without extra formatting.''"

definition generate_answer ::
  "('c, 'v) services \<Rightarrow> ('c, 'v) session \<Rightarrow> (exn + pystr) \<times> ('c, 'v) session" where
  "generate_answer svc s =
     (if current_question s = [] then (Inr (lit ''No question available.''), s)
      else case chat_send svc
                  (safety_instruction @ lit '' '' @ answer_instruction (current_question s)) s of
        (Inr text, s1) \<Rightarrow>
          (let correct = strip text;
               correct = (if startswith correct (lit ''Answer:'')
                          then strip (replace correct (lit ''Answer:'') []) else correct)
           in (Inr correct, s1\<lparr>correct_answer := correct\<rparr>))
      | (Inl (StopCandidateException m), s1) \<Rightarrow>
          (let correct = lit ''Please refer to financial literacy resources for the correct answer.''
           in (Inr correct, s1\<lparr>correct_answer := correct\<rparr>))
      | (Inl (Exception m), s1) \<Rightarrow>
          (let correct = lit ''Unable to generate answer at this time.''
           in (Inr correct, s1\<lparr>correct_answer := correct\<rparr>)))"

definition get_relevant_resource ::
  "('c, 'v) services \<Rightarrow> index_value \<Rightarrow> pystr \<Rightarrow> ('c, 'v) session
     \<Rightarrow> (exn + resource_info option) \<times> ('c, 'v) session" where
  "get_relevant_resource svc index query_text s =
     (if \<not> truthy index then (Inr None, s)
      else
        let s1 = s\<lparr>calls := calls s @ [Encode query_text]\<rparr> in
        case encode svc query_text of
          Inl e \<Rightarrow> (Inr None, s1)
        | Inr temp_emb \<Rightarrow>
            (case index of
               Pinecone_Index \<Rightarrow>
                 (let s2 = s1\<lparr>calls := calls s1 @ [Query temp_emb]\<rparr> in
                  case query svc temp_emb of
                    Inl e \<Rightarrow> (Inr None, s2)
                  | Inr [] \<Rightarrow> (Inr None, s2)
                  | Inr (top_match_metadata # rest) \<Rightarrow>
                      (Inr (Some
                         \<lparr>title = (case top_match_metadata (lit ''title'') of
                                     None \<Rightarrow> lit ''Financial Resource'' | Some v \<Rightarrow> v),
                          link = (case top_match_metadata (lit ''link'') of
                                    None \<Rightarrow> lit ''#'' | Some v \<Rightarrow> v),
                          description = (case top_match_metadata (lit ''description'') of
                                           None \<Rightarrow> [] | Some v \<Rightarrow> v)\<rparr>), s2))
             | _ \<Rightarrow> \<comment> \<open>\<open>index.query\<close> raises \<open>AttributeError\<close>, caught at line 154\<close>
                 (Inr None, s1)))"

definition newline :: pystr where
  "newline = [10]"

definition evaluation_instruction :: "pystr \<Rightarrow> pystr \<Rightarrow> pystr \<Rightarrow> pystr" where
  \<open>evaluation_instruction q user_answer correct =
     newline @ lit ''        Question: '' @ q
     @ newline @ lit ''        User's Answer: '' @ user_answer
     @ newline @ lit ''        Correct Answer: '' @ correct
     @ newline
     @ newline @ lit ''        Compare the user's answer to the correct answer. If they are similar in meaning or the user's answer contains the key correct information, respond with "CORRECT". Otherwise respond with "INCORRECT" followed by a brief explanation.''
     @ newline @ lit ''        ''\<close>

definition evaluation_failed ::
  "exn \<Rightarrow> ('c, 'v) session \<Rightarrow> (exn + evaluation) \<times> ('c, 'v) session" where
  \<comment> \<open>the handler at lines 126 to 132\<close>
  "evaluation_failed e s =
     (Inr \<lparr>is_correct = False,
           message = lit ''Error evaluating answer: '' @ str e,
           answer = Some (if correct_answer s = [] then (lit ''Answer not available'')
                          else correct_answer s),
           resource = None\<rparr>, s)"

definition lazy_answer ::
  "('c, 'v) services \<Rightarrow> ('c, 'v) session \<Rightarrow> (exn + unit) \<times> ('c, 'v) session" where
  \<comment> \<open>lines 96 and 97: the reference answer is generated when it is missing\<close>
  "lazy_answer svc s =
     (if correct_answer s = [] then
        (case generate_answer svc s of
           (Inl e, s1) \<Rightarrow> (Inl e, s1)
         | (Inr a, s1) \<Rightarrow> (Inr (), s1))
      else (Inr (), s))"

definition grade ::
  "(codepoint \<Rightarrow> pystr) \<Rightarrow> ('c, 'v) services \<Rightarrow> index_value \<Rightarrow> pystr
     \<Rightarrow> ('c, 'v) session
     \<Rightarrow> (exn + evaluation) \<times> ('c, 'v) session" where
  \<comment> \<open>lines 99 to 132: the grading prompt, the \<open>try\<close> block and its handler\<close>
  "grade special svc index user_answer s =
     (case chat_send svc
             (safety_instruction @ lit '' ''
              @ evaluation_instruction (current_question s) user_answer (correct_answer s)) s of
        (Inl e, s1) \<Rightarrow> evaluation_failed e s1
      | (Inr text, s1) \<Rightarrow>
          (let evaluation_text = strip text;
               correct = (is_in (lit ''CORRECT'') (upper special evaluation_text)
                          \<and> \<not> is_in (lit ''INCORRECT'') (upper special evaluation_text));
               result = \<lparr>is_correct = correct, message = evaluation_text,
                         answer = Some (correct_answer s1), resource = None\<rparr>
           in if \<not> correct \<and> truthy index then
                (case get_relevant_resource svc index (correct_answer s1) s1 of
                   (Inl e, s2) \<Rightarrow> evaluation_failed e s2
                 | (Inr None, s2) \<Rightarrow> (Inr result, s2)
                 | (Inr (Some r), s2) \<Rightarrow> (Inr (result\<lparr>resource := Some r\<rparr>), s2))
              else (Inr result, s1)))"

definition evaluate_answer ::
  "(codepoint \<Rightarrow> pystr) \<Rightarrow> ('c, 'v) services \<Rightarrow> index_value \<Rightarrow> pystr
     \<Rightarrow> ('c, 'v) session
     \<Rightarrow> (exn + evaluation) \<times> ('c, 'v) session" where
  "evaluate_answer special svc index user_answer s =
     (if current_question s = [] then
        (Inr \<lparr>is_correct = False, message = lit ''No question available.'',
              answer = None, resource = None\<rparr>, s)
      else case lazy_answer svc s of
             (Inl e, s1) \<Rightarrow> (Inl e, s1)
           | (Inr u, s1) \<Rightarrow> grade special svc index user_answer s1)"

definition general_instruction :: "pystr \<Rightarrow> pystr" where
  "general_instruction question =
     (lit ''Answer this financial literacy question: '') @ question
     @ lit ''. Provide a helpful, educational response.''"

definition handle_general_question ::
  "('c, 'v) services \<Rightarrow> pystr \<Rightarrow> ('c, 'v) session \<Rightarrow> (exn + pystr) \<times> ('c, 'v) session" where
  "handle_general_question svc question s =
     (case chat_send svc (safety_instruction @ lit '' '' @ general_instruction question) s of
        (Inr text, s1) \<Rightarrow> (Inr text, s1)
      | (Inl e, s1) \<Rightarrow>
          (Inr (lit ''I apologize, but I'm having trouble answering that question right now. Please try again.''),
           s1))"

definition combined_instruction :: "pystr \<Rightarrow> pystr" where
  "combined_instruction topic =
     newline @ lit ''        Create a financial literacy question about '' @ topic
       @ lit '' and provide its answer.''
     @ newline @ lit ''        Format your response exactly like this:''
     @ newline
     @ newline @ lit ''        QUESTION: [Your question here]''
     @ newline @ lit ''        ANSWER: [The correct answer here]''
     @ newline
     @ newline @ lit ''        Make the question practical and educational.''
     @ newline @ lit ''        ''"

definition credit_card_question :: pystr where
  "credit_card_question = lit ''What factors should you consider when choosing a credit card?''"

definition credit_card_answer :: pystr where
  "credit_card_answer =
     (lit ''When choosing a credit card, consider: annual fees, interest rates (APR), rewards programs, credit limit, accepted locations, customer service, and any special benefits or perks.'')"

definition emergency_fund_question :: pystr where
  "emergency_fund_question = lit ''What is an emergency fund and why is it important?''"

definition emergency_fund_answer :: pystr where
  "emergency_fund_answer =
     (lit ''An emergency fund is money set aside to cover unexpected expenses like medical bills, car repairs, or job loss. It's important because it provides financial security and prevents you from going into debt during emergencies.'')"

definition generation_failed ::
  "('c, 'v) session \<Rightarrow> (exn + pystr) \<times> ('c, 'v) session" where
  \<comment> \<open>the handler at lines 197 to 201\<close>
  "generation_failed s =
     (Inr emergency_fund_question,
      s\<lparr>current_question := emergency_fund_question, correct_answer := emergency_fund_answer\<rparr>)"

definition generate_question_with_answer ::
  "('c, 'v) services \<Rightarrow> pystr \<Rightarrow> ('c, 'v) session \<Rightarrow> (exn + pystr) \<times> ('c, 'v) session" where
  "generate_question_with_answer svc topic s =
     (case chat_send svc (safety_instruction @ lit '' '' @ combined_instruction topic) s of
        (Inl e, s1) \<Rightarrow> generation_failed s1
      | (Inr text, s1) \<Rightarrow>
          (let response_text = strip text in
           if is_in (lit ''QUESTION:'') response_text \<and> is_in (lit ''ANSWER:'') response_text then
             (case split response_text (lit ''ANSWER:'') of
                Inl e \<Rightarrow> generation_failed s1
              | Inr [] \<Rightarrow> generation_failed s1
              | Inr (part0 # parts) \<Rightarrow>
                  (let question_part = strip (replace part0 (lit ''QUESTION:'') []) in
                   case parts of
                     [] \<Rightarrow> \<comment> \<open>\<open>parts[1]\<close> raises \<open>IndexError\<close>\<close>
                       generation_failed s1
                   | part1 # rest \<Rightarrow>
                       (let answer_part = strip part1
                        in (Inr question_part,
                            s1\<lparr>current_question := question_part,
                               correct_answer := answer_part\<rparr>))))
           else
             (Inr credit_card_question,
              s1\<lparr>current_question := credit_card_question,
                 correct_answer := credit_card_answer\<rparr>)))"

section \<open>A scripted collaborator\<close>

text \<open>
  A chat whose state is the list of outcomes still to come; an exhausted script raises.
  The embedding of a text is the text itself, and the index knows one resource.
\<close>

definition scripted_send :: "(exn + pystr) list \<Rightarrow> pystr \<Rightarrow> (exn + pystr) \<times> (exn + pystr) list" where
  "scripted_send script prompt =
     (case script of
        [] \<Rightarrow> (Inl (Exception (lit ''script exhausted'')), [])
      | r # rest \<Rightarrow> (r, rest))"

definition scripted :: "((exn + pystr) list, pystr) services" where
  "scripted =
     \<lparr>send_message = scripted_send,
      encode = (\<lambda>text. Inr text),
      query = (\<lambda>v. Inr [[(lit ''title'') \<mapsto> (lit ''Budgeting basics'')]])\<rparr>"

text \<open>
  Two case tables: \<open>plain\<close> leaves every character as it is, and \<open>dotless\<close> maps the
  dotless i (U+0131) to \<open>I\<close>, as Python does.
\<close>

definition plain :: "codepoint \<Rightarrow> pystr" where
  "plain c = [c]"

definition dotless :: "codepoint \<Rightarrow> pystr" where
  "dotless c = (if c = 0x131 then lit ''I'' else [c])"

text \<open>
  \<open>quiz script q a\<close> is a session whose chat will give the outcomes of \<open>script\<close>, with
  the question \<open>q\<close> and the reference answer \<open>a\<close> stored and no call made so far.
\<close>

definition quiz :: "(exn + pystr) list \<Rightarrow> pystr \<Rightarrow> pystr \<Rightarrow> ((exn + pystr) list, pystr) session" where
  "quiz script q a = \<lparr>chat = script, current_question = q, correct_answer = a, calls = []\<rparr>"

section \<open>Notions used to state the properties\<close>

text \<open>
  \<open>grading_reply\<close> is what the chat returns to the grading call of \<open>evaluate_answer\<close>,
  which is sent once the reference answer is there; \<open>generation_reply\<close> is what it
  returns to the call of \<open>generate_question_with_answer\<close>.
\<close>

definition grading_reply :: "('c, 'v) services \<Rightarrow> pystr \<Rightarrow> ('c, 'v) session \<Rightarrow> exn + pystr" where
  "grading_reply svc user_answer s =
     (let s1 = snd (lazy_answer svc s)
      in fst (send_message svc (chat s1)
                (safety_instruction @ lit '' ''
                 @ evaluation_instruction (current_question s1) user_answer (correct_answer s1))))"

definition generation_reply :: "('c, 'v) services \<Rightarrow> pystr \<Rightarrow> ('c, 'v) session \<Rightarrow> exn + pystr" where
  "generation_reply svc topic s =
     fst (send_message svc (chat s) (safety_instruction @ lit '' '' @ combined_instruction topic))"

text \<open>
  A reply leaves the question blank when it holds both markers and only whitespace remains
  of the text before the first \<open>ANSWER:\<close> once every \<open>QUESTION:\<close> is removed.
\<close>

definition blank_question :: "exn + pystr \<Rightarrow> bool" where
  "blank_question r =
     (case r of
        Inl e \<Rightarrow> False
      | Inr text \<Rightarrow>
          is_in (lit ''QUESTION:'') text \<and>
          (case str_partition (lit ''ANSWER:'') (strip text) of
             None \<Rightarrow> False
           | Some (before, after) \<Rightarrow> list_all isspace (replace before (lit ''QUESTION:'') [])))"

text \<open>
  The wording "the entire text after the \<open>ANSWER:\<close> marker", read from the leftmost
  marker on.
\<close>

definition text_after_marker :: "pystr \<Rightarrow> pystr \<Rightarrow> pystr" where
  "text_after_marker marker s =
     (case str_partition marker s of None \<Rightarrow> [] | Some (before, after) \<Rightarrow> after)"

text \<open>
  The calls that belong to a resource lookup (to the embedding model and to the index), and
  the calls one lookup makes: the text is encoded, and the index is queried when the
  encoding returns and \<open>index\<close> is the Pinecone index.
\<close>

fun is_lookup :: "'v call \<Rightarrow> bool" where
  "is_lookup (Send_Message p) = False"
| "is_lookup (Encode t) = True"
| "is_lookup (Query v) = True"

definition lookup_calls :: "'v call list \<Rightarrow> 'v call list" where
  "lookup_calls cs = filter is_lookup cs"

definition lookup_attempt :: "('c, 'v) services \<Rightarrow> index_value \<Rightarrow> pystr \<Rightarrow> 'v call list" where
  "lookup_attempt svc index text =
     Encode text # (case index of
                      Pinecone_Index \<Rightarrow> (case encode svc text of Inl e \<Rightarrow> [] | Inr v \<Rightarrow> [Query v])
                    | _ \<Rightarrow> [])"

section \<open>Facts about the string operations\<close>

lemma is_in_sublist: "is_in sub s = sublist sub s"
  by (induction s) (simp_all add: sublist_Cons_right)

lemma is_in_rev: "is_in (rev sub) (rev s) = is_in sub s"
  by (simp add: is_in_sublist)

lemma upper_append: "upper special (xs @ ys) = upper special xs @ upper special ys"
  by (simp add: upper_def)

lemma upper_char_space: "isspace c \<Longrightarrow> upper_char special c = [c]"
  by (auto simp add: upper_char_def isspace_def)

lemma upper_spaces: "list_all isspace ws \<Longrightarrow> upper special ws = ws"
  by (induction ws) (simp_all add: upper_def upper_char_space)

lemma is_in_pad_left:
  assumes "sub \<noteq> []" and "\<not> isspace (hd sub)" and "list_all isspace ws"
  shows "is_in sub (ws @ s) = is_in sub s"
  using assms(3)
proof (induction ws)
  case Nil
  show ?case by simp
next
  case (Cons c ws)
  then have "isspace c" and rest: "list_all isspace ws"
    by simp_all
  with assms(1,2) have "\<not> prefix sub (c # ws @ s)"
    by (cases sub) auto
  with Cons.IH [OF rest] show ?case by simp
qed

lemma is_in_pad:
  assumes "sub \<noteq> []" and "\<not> isspace (hd sub)" and "\<not> isspace (last sub)"
    and "list_all isspace ws1" and "list_all isspace ws2"
  shows "is_in sub (ws1 @ s @ ws2) = is_in sub s"
proof -
  have "is_in sub (ws1 @ s @ ws2) = is_in sub (s @ ws2)"
    using assms(1,2,4) by (rule is_in_pad_left)
  also have "\<dots> = is_in (rev sub) (rev ws2 @ rev s)"
    using is_in_rev [of sub "s @ ws2"] by simp
  also have "\<dots> = is_in (rev sub) (rev s)"
    using assms(1,3,5) by (intro is_in_pad_left) (simp_all add: hd_rev)
  also have "\<dots> = is_in sub s"
    by (rule is_in_rev)
  finally show ?thesis .
qed

lemma strip_pad:
  "\<exists>ws1 ws2. s = ws1 @ strip s @ ws2 \<and> list_all isspace ws1 \<and> list_all isspace ws2"
proof -
  let ?l = "dropWhile isspace s"
  let ?ws1 = "takeWhile isspace s"
  let ?ws2 = "rev (takeWhile isspace (rev ?l))"
  have "rev (takeWhile isspace (rev ?l) @ dropWhile isspace (rev ?l)) = ?l"
    by (simp only: takeWhile_dropWhile_id rev_rev_ident)
  then have "rev (dropWhile isspace (rev ?l)) @ ?ws2 = ?l"
    by (simp only: rev_append)
  then have "?l = strip s @ ?ws2"
    by (simp only: strip_def)
  moreover have "s = ?ws1 @ ?l"
    by simp
  ultimately have "s = ?ws1 @ strip s @ ?ws2"
    by simp
  moreover have "list_all isspace ?ws1" and "list_all isspace ?ws2"
    by (auto simp add: list_all_iff dest: set_takeWhileD)
  ultimately show ?thesis
    by blast
qed

lemma is_in_strip:
  assumes "sub \<noteq> []" and "\<not> isspace (hd sub)" and "\<not> isspace (last sub)"
  shows "is_in sub (strip s) = is_in sub s"
proof -
  from strip_pad [of s] obtain ws1 ws2 where
    s: "s = ws1 @ strip s @ ws2" and ws: "list_all isspace ws1" "list_all isspace ws2"
    by blast
  have "is_in sub (ws1 @ strip s @ ws2) = is_in sub (strip s)"
    using assms ws by (rule is_in_pad)
  with s show ?thesis
    by simp
qed

lemma is_in_upper_strip:
  assumes "sub \<noteq> []" and "\<not> isspace (hd sub)" and "\<not> isspace (last sub)"
  shows "is_in sub (upper special (strip s)) = is_in sub (upper special s)"
proof -
  from strip_pad [of s] obtain ws1 ws2 where
    s: "s = ws1 @ strip s @ ws2" and ws: "list_all isspace ws1" "list_all isspace ws2"
    by blast
  have "upper special (ws1 @ strip s @ ws2) = ws1 @ upper special (strip s) @ ws2"
    using ws by (simp add: upper_append upper_spaces)
  with s have "upper special s = ws1 @ upper special (strip s) @ ws2"
    by simp
  moreover have "is_in sub (ws1 @ upper special (strip s) @ ws2) = is_in sub (upper special (strip s))"
    using assms ws by (rule is_in_pad)
  ultimately show ?thesis
    by simp
qed

lemma strip_empty_iff: "strip s = [] \<longleftrightarrow> (\<forall>c \<in> set s. isspace c)"
proof
  assume "strip s = []"
  then have rest: "\<forall>c \<in> set (dropWhile isspace s). isspace c"
    by (simp add: strip_def)
  have "set s = set (takeWhile isspace s) \<union> set (dropWhile isspace s)"
    by (metis set_append takeWhile_dropWhile_id)
  with rest show "\<forall>c \<in> set s. isspace c"
    by (auto dest: set_takeWhileD)
next
  assume "\<forall>c \<in> set s. isspace c"
  then show "strip s = []"
    by (auto simp add: strip_def dest: set_dropWhileD)
qed

lemma marker_strip:
  "is_in (lit ''QUESTION:'') (strip text) = is_in (lit ''QUESTION:'') text"
  "is_in (lit ''ANSWER:'') (strip text) = is_in (lit ''ANSWER:'') text"
  by (rule is_in_strip; simp add: isspace_def lit_def)+

lemma lit_Cons_nonempty [simp]: "lit (c # cs) \<noteq> []"
  by (simp add: lit_def)

lemma answer_marker_butlast [simp]: "butlast (lit ''ANSWER:'') = lit ''ANSWER''"
  by (simp add: lit_def)

text \<open>
  \<open>str_partition\<close> finds the leftmost occurrence: no occurrence ends before the one it
  reports, and every text that holds the separator is cut there.
\<close>

lemma str_partition_None_iff:
  "sep \<noteq> [] \<Longrightarrow> str_partition sep s = None \<longleftrightarrow> \<not> is_in sep s"
  by (induction s) (auto split: option.splits)

lemma str_partition_None: "sep \<noteq> [] \<Longrightarrow> \<not> is_in sep s \<Longrightarrow> str_partition sep s = None"
  by (simp add: str_partition_None_iff)

lemma str_partition_SomeD:
  "str_partition sep s = Some (before, after) \<Longrightarrow> sep \<noteq> [] \<Longrightarrow>
   s = before @ sep @ after \<and> \<not> is_in sep (before @ butlast sep)"
proof (induction s arbitrary: before)
  case Nil
  then show ?case by simp
next
  case (Cons c cs)
  show ?case
  proof (cases "prefix sep (c # cs)")
    case True
    with Cons.prems have b: "before = []" and a: "after = drop (length sep) (c # cs)"
      by auto
    from True have "c # cs = sep @ drop (length sep) (c # cs)"
      by (metis append_eq_conv_conj prefixE)
    moreover have "\<not> is_in sep (butlast sep)"
    proof
      assume "is_in sep (butlast sep)"
      then have "length sep \<le> length (butlast sep)"
        by (simp only: is_in_sublist sublist_length_le)
      moreover from Cons.prems(2) have "length (butlast sep) < length sep"
        by (cases sep rule: rev_cases) simp_all
      ultimately show False
        by arith
    qed
    ultimately show ?thesis using a b by simp
  next
    case False
    with Cons.prems obtain b where b: "str_partition sep cs = Some (b, after)" "before = c # b"
      by (auto split: option.splits)
    from Cons.IH [OF b(1) Cons.prems(2)]
    have cs: "cs = b @ sep @ after" and first: "\<not> is_in sep (b @ butlast sep)"
      by simp_all
    have "\<not> prefix sep (c # b @ butlast sep)"
    proof
      assume "prefix sep (c # b @ butlast sep)"
      moreover have "prefix (c # b @ butlast sep) (c # cs)"
        using cs Cons.prems(2) by (metis append.assoc append_butlast_last_id prefix_Cons prefixI
            same_prefix_prefix)
      ultimately have "prefix sep (c # cs)"
        by (rule prefix_order.trans)
      with False show False ..
    qed
    with first cs b(2) show ?thesis by simp
  qed
qed

lemma str_partition_first:
  assumes "sep \<noteq> []" and "\<not> is_in sep (before @ butlast sep)"
  shows "str_partition sep (before @ sep @ after) = Some (before, after)"
  using assms(2)
proof (induction before)
  case Nil
  then show ?case
    using assms(1) by (cases sep) simp_all
next
  case (Cons c before)
  from Cons.prems have np: "\<not> prefix sep (c # before @ butlast sep)"
    and rest: "\<not> is_in sep (before @ butlast sep)"
    by simp_all
  have "\<not> prefix sep (c # before @ sep @ after)"
  proof
    assume p: "prefix sep (c # before @ sep @ after)"
    have "length sep \<le> length (c # before @ butlast sep)"
      by simp
    moreover have "prefix (c # before @ butlast sep) (c # before @ sep @ after)"
      using assms(1) by (metis append.assoc append_butlast_last_id prefix_Cons prefixI
          same_prefix_prefix)
    ultimately have "prefix sep (c # before @ butlast sep)"
      using p by (metis prefix_length_prefix)
    with np show False ..
  qed
  with Cons.IH [OF rest] show ?case by simp
qed

lemma first_occurrence:
  assumes "sep \<noteq> []" and "is_in sep s"
  shows "\<exists>before after. s = before @ sep @ after \<and> \<not> is_in sep (before @ butlast sep)"
proof -
  from assms have "str_partition sep s \<noteq> None"
    by (simp add: str_partition_None_iff)
  then obtain before after where "str_partition sep s = Some (before, after)"
    by auto
  from str_partition_SomeD [OF this assms(1)] show ?thesis
    by blast
qed

lemma pieces_None: "\<not> is_in sep s \<Longrightarrow> pieces sep s = [s]"
  by (subst pieces.simps) (auto simp add: str_partition_None)

lemma pieces_first:
  assumes "sep \<noteq> []" and "\<not> is_in sep (before @ butlast sep)"
  shows "pieces sep (before @ sep @ after) = before # pieces sep after"
  using str_partition_first [OF assms, of after] assms(1)
  by (subst pieces.simps) simp

lemma pieces_hd:
  "sep \<noteq> [] \<Longrightarrow> pieces sep s = (case str_partition sep s of None \<Rightarrow> s | Some (piece, rest) \<Rightarrow> piece) # tl (pieces sep s)"
  by (subst pieces.simps, subst (2) pieces.simps) (simp split: option.splits)

lemma replace_all_None: "\<not> is_in old s \<Longrightarrow> replace_all old new s = s"
  by (subst replace_all.simps) (auto simp add: str_partition_None)

lemma replace_all_first:
  assumes "old \<noteq> []" and "\<not> is_in old (before @ butlast old)"
  shows "replace_all old new (before @ old @ after) = before @ new @ replace_all old new after"
  using str_partition_first [OF assms, of after] assms(1)
  by (subst replace_all.simps) simp

section \<open>Facts about the operations\<close>

lemma chat_send_eq:
  "chat_send svc prompt s =
     (fst (send_message svc (chat s) prompt),
      s\<lparr>chat := snd (send_message svc (chat s) prompt),
        calls := calls s @ [Send_Message prompt]\<rparr>)"
  by (simp add: chat_send_def split: prod.splits)

lemma generate_answer_returns: "\<exists>a. fst (generate_answer svc s) = Inr a"
  by (simp add: generate_answer_def chat_send_def Let_def split: prod.splits sum.splits exn.splits)

lemma generate_answer_frame:
  "current_question (snd (generate_answer svc s)) = current_question s"
  "lookup_calls (calls (snd (generate_answer svc s))) = lookup_calls (calls s)"
  by (simp_all add: generate_answer_def chat_send_eq Let_def lookup_calls_def
      split: sum.splits exn.splits)

lemma lazy_answer_returns: "fst (lazy_answer svc s) = Inr ()"
  using generate_answer_returns [of svc s]
  by (auto simp add: lazy_answer_def split: prod.splits sum.splits)

lemma lazy_answer_frame:
  "current_question (snd (lazy_answer svc s)) = current_question s"
  "lookup_calls (calls (snd (lazy_answer svc s))) = lookup_calls (calls s)"
  "correct_answer s \<noteq> [] \<Longrightarrow> snd (lazy_answer svc s) = s"
  using generate_answer_frame [of svc s]
  by (auto simp add: lazy_answer_def split: prod.splits sum.splits)

lemma evaluate_answer_grade:
  "current_question s \<noteq> [] \<Longrightarrow>
   evaluate_answer special svc index user_answer s = grade special svc index user_answer (snd (lazy_answer svc s))"
  using lazy_answer_returns [of svc s]
  by (auto simp add: evaluate_answer_def split: prod.splits sum.splits)

lemma get_relevant_resource_returns:
  "\<exists>r. fst (get_relevant_resource svc index text s) = Inr r"
  by (simp add: get_relevant_resource_def Let_def
      split: sum.splits list.splits index_value.splits)

lemma grade_returns: "\<exists>r. fst (grade special svc index user_answer s) = Inr r"
  using get_relevant_resource_returns
  by (auto simp add: grade_def chat_send_def evaluation_failed_def Let_def
      split: prod.splits sum.splits option.splits)

lemma get_relevant_resource_eq:
  "\<exists>res. get_relevant_resource svc index text s =
     (Inr res, s\<lparr>calls := calls s @ (if truthy index then lookup_attempt svc index text else [])\<rparr>)"
  by (cases index)
     (simp_all add: get_relevant_resource_def lookup_attempt_def Let_def
      split: sum.splits list.splits)

lemma get_relevant_resource_frame:
  "current_question (snd (get_relevant_resource svc index query_text s)) = current_question s"
  "correct_answer (snd (get_relevant_resource svc index query_text s)) = correct_answer s"
  using get_relevant_resource_eq [of svc index query_text s] by auto

lemma grade_eq:
  "\<exists>r. grade special svc index user_answer s =
     (Inr r,
      s\<lparr>chat := snd (send_message svc (chat s)
                       (safety_instruction @ lit '' ''
                        @ evaluation_instruction (current_question s) user_answer
                            (correct_answer s))),
        calls := calls s
          @ [Send_Message (safety_instruction @ lit '' ''
                           @ evaluation_instruction (current_question s) user_answer
                               (correct_answer s))]
          @ (if \<not> isl (fst (send_message svc (chat s)
                               (safety_instruction @ lit '' ''
                                @ evaluation_instruction (current_question s) user_answer
                                    (correct_answer s))))
                \<and> \<not> is_correct r \<and> truthy index
             then lookup_attempt svc index (correct_answer s) else [])\<rparr>)
     \<and> (isl (fst (send_message svc (chat s)
                    (safety_instruction @ lit '' ''
                     @ evaluation_instruction (current_question s) user_answer
                         (correct_answer s)))) \<longrightarrow> \<not> is_correct r)"
proof -
  let ?p = "safety_instruction @ lit '' ''
            @ evaluation_instruction (current_question s) user_answer (correct_answer s)"
  let ?s1 = "s\<lparr>chat := snd (send_message svc (chat s) ?p), calls := calls s @ [Send_Message ?p]\<rparr>"
  obtain res where res: "get_relevant_resource svc index (correct_answer s) ?s1 =
     (Inr res, ?s1\<lparr>calls := calls ?s1 @ (if truthy index
                                           then lookup_attempt svc index (correct_answer s)
                                           else [])\<rparr>)"
    using get_relevant_resource_eq [of svc index "correct_answer s" ?s1] by blast
  show ?thesis
  proof (cases "fst (send_message svc (chat s) ?p)")
    case (Inl e)
    then show ?thesis
      by (simp add: grade_def chat_send_eq evaluation_failed_def)
  next
    case (Inr reply)
    then show ?thesis
      using res
      by (cases res) (simp_all add: grade_def chat_send_eq Let_def)
  qed
qed

lemma grade_frame:
  "current_question (snd (grade special svc index user_answer s)) = current_question s"
  "correct_answer (snd (grade special svc index user_answer s)) = correct_answer s"
  using grade_eq [of special svc index user_answer s] by auto

lemma grade_verdict:
  assumes "fst (send_message svc (chat s)
             (safety_instruction @ lit '' ''
              @ evaluation_instruction (current_question s) user_answer (correct_answer s))) = Inr t"
  shows "\<exists>r. fst (grade special svc index user_answer s) = Inr r
           \<and> is_correct r = (is_in (lit ''CORRECT'') (upper special (strip t))
                            \<and> \<not> is_in (lit ''INCORRECT'') (upper special (strip t)))"
  using assms get_relevant_resource_returns [of svc index "correct_answer s"]
  by (auto simp add: grade_def chat_send_def evaluation_failed_def Let_def
      split: prod.splits sum.splits option.splits)

lemma grade_failure:
  assumes "fst (send_message svc (chat s)
             (safety_instruction @ lit '' ''
              @ evaluation_instruction (current_question s) user_answer (correct_answer s))) = Inl e"
  shows "fst (grade special svc index user_answer s) =
         Inr \<lparr>is_correct = False, message = lit ''Error evaluating answer: '' @ str e,
              answer = Some (if correct_answer s = [] then (lit ''Answer not available'')
                             else correct_answer s),
              resource = None\<rparr>"
    and "correct_answer (snd (grade special svc index user_answer s)) = correct_answer s"
  using assms
  by (auto simp add: grade_def chat_send_def evaluation_failed_def split: prod.splits sum.splits)

lemma decision_table:
  "is_in (lit ''CORRECT'') (upper special (lit ''CORRECT'')) \<and> \<not> is_in (lit ''INCORRECT'') (upper special (lit ''CORRECT''))"
  "is_in (lit ''INCORRECT'') (upper special (lit ''INCORRECT, explanation''))"
  "is_in (lit ''CORRECT'') (upper special (lit ''correct! well done''))
   \<and> \<not> is_in (lit ''INCORRECT'') (upper special (lit ''correct! well done''))"
  "is_in (lit ''INCORRECT'') (upper special (lit ''Your answer is incorrect''))"
  "\<not> is_in (lit ''CORRECT'') (upper special [])"
  by code_simp+

lemma generate_question_with_answer_failed:
  assumes "generation_reply svc topic s = Inl e"
  shows "generate_question_with_answer svc topic s =
         (Inr emergency_fund_question,
          (snd (chat_send svc (safety_instruction @ lit '' '' @ combined_instruction topic) s))
            \<lparr>current_question := emergency_fund_question,
             correct_answer := emergency_fund_answer\<rparr>)"
  using assms
  by (simp add: generate_question_with_answer_def generation_reply_def chat_send_eq
      generation_failed_def)

lemma generate_question_with_answer_malformed:
  assumes "generation_reply svc topic s = Inr text"
    and "\<not> is_in (lit ''QUESTION:'') text \<or> \<not> is_in (lit ''ANSWER:'') text"
  shows "generate_question_with_answer svc topic s =
         (Inr credit_card_question,
          (snd (chat_send svc (safety_instruction @ lit '' '' @ combined_instruction topic) s))
            \<lparr>current_question := credit_card_question,
             correct_answer := credit_card_answer\<rparr>)"
  using assms
  by (auto simp add: generate_question_with_answer_def generation_reply_def chat_send_eq
      marker_strip)

lemma generate_question_with_answer_split:
  assumes reply: "generation_reply svc topic s = Inr text"
    and question: "is_in (lit ''QUESTION:'') text"
    and part: "str_partition (lit ''ANSWER:'') (strip text) = Some (before, after)"
  shows "generate_question_with_answer svc topic s =
         (Inr (strip (replace before (lit ''QUESTION:'') [])),
          (snd (chat_send svc (safety_instruction @ lit '' '' @ combined_instruction topic) s))
            \<lparr>current_question := strip (replace before (lit ''QUESTION:'') []),
             correct_answer := strip (case str_partition (lit ''ANSWER:'') after of
                                        None \<Rightarrow> after | Some (piece, rest) \<Rightarrow> piece)\<rparr>)"
proof -
  from part have answer: "is_in (lit ''ANSWER:'') (strip text)"
    using str_partition_None_iff [of "(lit ''ANSWER:'')" "strip text"] by auto
  have "pieces (lit ''ANSWER:'') (strip text) = before # pieces (lit ''ANSWER:'') after"
    using part by (subst pieces.simps) simp
  also have "pieces (lit ''ANSWER:'') after =
      (case str_partition (lit ''ANSWER:'') after of None \<Rightarrow> after | Some (piece, rest) \<Rightarrow> piece)
      # tl (pieces (lit ''ANSWER:'') after)"
    by (rule pieces_hd) simp
  finally have "split (strip text) (lit ''ANSWER:'') =
      Inr (before # (case str_partition (lit ''ANSWER:'') after of
                       None \<Rightarrow> after | Some (piece, rest) \<Rightarrow> piece)
           # tl (pieces (lit ''ANSWER:'') after))"
    by (simp add: split_def)
  with reply question answer show ?thesis
    by (simp add: generate_question_with_answer_def generation_reply_def chat_send_eq
        marker_strip Let_def)
qed

text \<open>
  Line 207 defines the view function of the route \<open>/\<close> under the name \<open>index\<close>, after the
  Pinecone configuration has bound that name. Once the module is loaded the global is the
  view function, whatever the configuration was.
\<close>

lemma module_index_view_function:
  "module_index key connects = View_Function"
  by (simp add: module_index_def Let_def)

section \<open>The properties\<close>

subsection \<open>C1: the grading decision rule\<close>

text \<open>
  Claim C1. When a question is present and the grading call returns the text \<open>t\<close>,
  \<open>evaluate_answer\<close> returns a result whose \<open>is_correct\<close> holds exactly when the uppercased
  \<open>t\<close> contains \<open>CORRECT\<close> and does not contain \<open>INCORRECT\<close>, whatever the case table
  does beyond ASCII. The code tests the stripped reply; stripping changes neither test.
  The decision table follows: \<open>CORRECT\<close> and \<open>correct! well done\<close> are judged correct,
  \<open>INCORRECT, explanation\<close>, \<open>Your answer is incorrect\<close> and the empty reply are not.
\<close>

theorem evaluate_answer_decision_rule:
  assumes "current_question s \<noteq> []"
    and "grading_reply svc user_answer s = Inr t"
  shows "\<exists>r. fst (evaluate_answer special svc index user_answer s) = Inr r
           \<and> is_correct r = (is_in (lit ''CORRECT'') (upper special t)
                            \<and> \<not> is_in (lit ''INCORRECT'') (upper special t))
           \<and> (t = lit ''CORRECT'' \<longrightarrow> is_correct r)
           \<and> (t = lit ''INCORRECT, explanation'' \<longrightarrow> \<not> is_correct r)
           \<and> (t = lit ''correct! well done'' \<longrightarrow> is_correct r)
           \<and> (t = lit ''Your answer is incorrect'' \<longrightarrow> \<not> is_correct r)
           \<and> (t = [] \<longrightarrow> \<not> is_correct r)"
proof -
  let ?s1 = "snd (lazy_answer svc s)"
  from assms(2) have "fst (send_message svc (chat ?s1)
             (safety_instruction @ lit '' ''
              @ evaluation_instruction (current_question ?s1) user_answer (correct_answer ?s1)))
           = Inr t"
    by (simp add: grading_reply_def Let_def)
  from grade_verdict [OF this, where index = index and special = special] obtain r where
    r: "fst (grade special svc index user_answer ?s1) = Inr r"
    and v: "is_correct r = (is_in (lit ''CORRECT'') (upper special (strip t))
                            \<and> \<not> is_in (lit ''INCORRECT'') (upper special (strip t)))"
    by blast
  have c: "is_in (lit ''CORRECT'') (upper special (strip t))
           = is_in (lit ''CORRECT'') (upper special t)"
    by (rule is_in_upper_strip) (simp_all add: isspace_def lit_def)
  have i: "is_in (lit ''INCORRECT'') (upper special (strip t))
           = is_in (lit ''INCORRECT'') (upper special t)"
    by (rule is_in_upper_strip) (simp_all add: isspace_def lit_def)
  from v c i have rule: "is_correct r = (is_in (lit ''CORRECT'') (upper special t)
                                       \<and> \<not> is_in (lit ''INCORRECT'') (upper special t))"
    by simp
  have table: "(t = lit ''CORRECT'' \<longrightarrow> is_correct r)
           \<and> (t = lit ''INCORRECT, explanation'' \<longrightarrow> \<not> is_correct r)
           \<and> (t = lit ''correct! well done'' \<longrightarrow> is_correct r)
           \<and> (t = lit ''Your answer is incorrect'' \<longrightarrow> \<not> is_correct r)
           \<and> (t = [] \<longrightarrow> \<not> is_correct r)"
    unfolding rule using decision_table [of special] by blast
  from assms(1) r rule table show ?thesis
    by (simp add: evaluate_answer_grade)
qed

text \<open>
  The table, run through \<open>evaluate_answer\<close>; and the reply \<open>incorrect\<close> written with a
  dotless i, which \<open>str.upper\<close> turns into \<open>INCORRECT\<close>.
\<close>

theorem evaluate_answer_decision_rule_witness:
  "(\<exists>r. fst (evaluate_answer plain scripted Pinecone_Index (lit ''my answer'')
              (quiz [Inr (lit ''CORRECT'')] (lit ''Q'') (lit ''A''))) = Inr r \<and> is_correct r)
   \<and> (\<exists>r. fst (evaluate_answer plain scripted Pinecone_Index (lit ''my answer'')
              (quiz [Inr (lit ''INCORRECT, explanation'')] (lit ''Q'') (lit ''A''))) = Inr r
            \<and> \<not> is_correct r)
   \<and> (\<exists>r. fst (evaluate_answer plain scripted Pinecone_Index (lit ''my answer'')
              (quiz [Inr (lit ''correct! well done'')] (lit ''Q'') (lit ''A''))) = Inr r
            \<and> is_correct r)
   \<and> (\<exists>r. fst (evaluate_answer plain scripted Pinecone_Index (lit ''my answer'')
              (quiz [Inr (lit ''Your answer is incorrect'')] (lit ''Q'') (lit ''A''))) = Inr r
            \<and> \<not> is_correct r)
   \<and> (\<exists>r. fst (evaluate_answer plain scripted Pinecone_Index (lit ''my answer'')
              (quiz [Inr []] (lit ''Q'') (lit ''A''))) = Inr r \<and> \<not> is_correct r)
   \<and> (\<exists>r. fst (evaluate_answer dotless scripted Pinecone_Index (lit ''my answer'')
              (quiz [Inr (0x131 # lit ''ncorrect'')] (lit ''Q'') (lit ''A''))) = Inr r
            \<and> \<not> is_correct r)"
proof -
  have q: "current_question (quiz [Inr t] (lit ''Q'') (lit ''A'')) \<noteq> []" for t
    by (simp add: quiz_def)
  have g: "grading_reply scripted (lit ''my answer'') (quiz [Inr t] (lit ''Q'') (lit ''A''))
           = Inr t" for t
    by (simp add: grading_reply_def lazy_answer_def quiz_def scripted_def scripted_send_def)
  note run = evaluate_answer_decision_rule [OF q g, where index = Pinecone_Index]
  have c1: "\<exists>r. fst (evaluate_answer plain scripted Pinecone_Index (lit ''my answer'')
              (quiz [Inr (lit ''CORRECT'')] (lit ''Q'') (lit ''A''))) = Inr r \<and> is_correct r"
    using run [where t = "lit ''CORRECT''" and special = plain] by auto
  have c2: "\<exists>r. fst (evaluate_answer plain scripted Pinecone_Index (lit ''my answer'')
              (quiz [Inr (lit ''INCORRECT, explanation'')] (lit ''Q'') (lit ''A''))) = Inr r
            \<and> \<not> is_correct r"
    using run [where t = "lit ''INCORRECT, explanation''" and special = plain] by auto
  have c3: "\<exists>r. fst (evaluate_answer plain scripted Pinecone_Index (lit ''my answer'')
              (quiz [Inr (lit ''correct! well done'')] (lit ''Q'') (lit ''A''))) = Inr r
            \<and> is_correct r"
    using run [where t = "lit ''correct! well done''" and special = plain] by auto
  have c4: "\<exists>r. fst (evaluate_answer plain scripted Pinecone_Index (lit ''my answer'')
              (quiz [Inr (lit ''Your answer is incorrect'')] (lit ''Q'') (lit ''A''))) = Inr r
            \<and> \<not> is_correct r"
    using run [where t = "lit ''Your answer is incorrect''" and special = plain] by auto
  have c5: "\<exists>r. fst (evaluate_answer plain scripted Pinecone_Index (lit ''my answer'')
              (quiz [Inr []] (lit ''Q'') (lit ''A''))) = Inr r \<and> \<not> is_correct r"
    using run [where t = "[]" and special = plain] by auto
  have u: "is_in (lit ''INCORRECT'') (upper dotless (0x131 # lit ''ncorrect''))"
    by code_simp
  have c6: "\<exists>r. fst (evaluate_answer dotless scripted Pinecone_Index (lit ''my answer'')
              (quiz [Inr (0x131 # lit ''ncorrect'')] (lit ''Q'') (lit ''A''))) = Inr r
            \<and> \<not> is_correct r"
    using run [where t = "0x131 # lit ''ncorrect''" and special = dotless] u by auto
  from c1 c2 c3 c4 c5 c6 show ?thesis
    by (intro conjI)
qed

subsection \<open>C2: no question, no call\<close>

text \<open>
  Claim C2. With an empty \<open>current_question\<close>, \<open>evaluate_answer\<close> returns the dictionary
  with \<open>is_correct\<close> false and the message \<open>No question available.\<close> and no other key, and
  leaves the session as it was: no call reaches the chat, the embedding model or the index.
\<close>

theorem evaluate_answer_no_question:
  assumes "current_question s = []"
  shows "evaluate_answer special svc index user_answer s =
           (Inr \<lparr>is_correct = False, message = lit ''No question available.'',
                 answer = None, resource = None\<rparr>, s)
         \<and> calls (snd (evaluate_answer special svc index user_answer s)) = calls s"
  using assms by (simp add: evaluate_answer_def)

theorem evaluate_answer_no_question_witness:
  "current_question (quiz [Inr (lit ''CORRECT'')] [] (lit ''A'')) = []
   \<and> evaluate_answer plain scripted Pinecone_Index (lit ''my answer'')
        (quiz [Inr (lit ''CORRECT'')] [] (lit ''A''))
       = (Inr \<lparr>is_correct = False, message = lit ''No question available.'',
               answer = None, resource = None\<rparr>,
          quiz [Inr (lit ''CORRECT'')] [] (lit ''A''))
   \<and> calls (snd (evaluate_answer plain scripted Pinecone_Index (lit ''my answer'')
        (quiz [Inr (lit ''CORRECT'')] [] (lit ''A'')))) = []"
proof -
  have e: "current_question (quiz [Inr (lit ''CORRECT'')] [] (lit ''A'')) = []"
    by (simp add: quiz_def)
  have c: "calls (quiz [Inr (lit ''CORRECT'')] [] (lit ''A'')) = []"
    by (simp add: quiz_def)
  note run = evaluate_answer_no_question
    [OF e, where special = plain and svc = scripted and index = Pinecone_Index
       and user_answer = "lit ''my answer''"]
  from run have 1: "evaluate_answer plain scripted Pinecone_Index (lit ''my answer'')
        (quiz [Inr (lit ''CORRECT'')] [] (lit ''A''))
       = (Inr \<lparr>is_correct = False, message = lit ''No question available.'',
               answer = None, resource = None\<rparr>,
          quiz [Inr (lit ''CORRECT'')] [] (lit ''A''))"
    by (rule conjunct1)
  from run have "calls (snd (evaluate_answer plain scripted Pinecone_Index (lit ''my answer'')
        (quiz [Inr (lit ''CORRECT'')] [] (lit ''A'')))) = calls (quiz [Inr (lit ''CORRECT'')] [] (lit ''A''))"
    by (rule conjunct2)
  then have 2: "calls (snd (evaluate_answer plain scripted Pinecone_Index (lit ''my answer'')
        (quiz [Inr (lit ''CORRECT'')] [] (lit ''A'')))) = []"
    by (simp only: c)
  from e 1 2 show ?thesis
    by (intro conjI)
qed

subsection \<open>C3: which operation writes the question and the answer\<close>

text \<open>
  Claim C3, as amended. \<open>generate_question_with_answer\<close> replaces \<open>current_question\<close> and
  \<open>correct_answer\<close> together on every path: the pair it stores depends on the chat alone,
  not on the pair stored before. \<open>generate_answer\<close> and \<open>evaluate_answer\<close> never change
  \<open>current_question\<close>, and \<open>evaluate_answer\<close> keeps a reference answer that is there.
  \<open>handle_general_question\<close> and \<open>get_relevant_resource\<close> change neither field.
\<close>

theorem question_and_answer_writes:
  "(chat s1 = chat s2 \<longrightarrow>
      current_question (snd (generate_question_with_answer svc topic s1))
        = current_question (snd (generate_question_with_answer svc topic s2))
      \<and> correct_answer (snd (generate_question_with_answer svc topic s1))
        = correct_answer (snd (generate_question_with_answer svc topic s2)))
   \<and> current_question (snd (generate_answer svc s)) = current_question s
   \<and> current_question (snd (evaluate_answer special svc index user_answer s))
       = current_question s
   \<and> (correct_answer s \<noteq> [] \<longrightarrow>
        correct_answer (snd (evaluate_answer special svc index user_answer s))
        = correct_answer s)
   \<and> current_question (snd (handle_general_question svc question s)) = current_question s
   \<and> correct_answer (snd (handle_general_question svc question s)) = correct_answer s
   \<and> current_question (snd (get_relevant_resource svc index query_text s)) = current_question s
   \<and> correct_answer (snd (get_relevant_resource svc index query_text s)) = correct_answer s"
proof -
  have both: "current_question (snd (generate_question_with_answer svc topic s1))
        = current_question (snd (generate_question_with_answer svc topic s2))
      \<and> correct_answer (snd (generate_question_with_answer svc topic s1))
        = correct_answer (snd (generate_question_with_answer svc topic s2))"
    if "chat s1 = chat s2"
    using that
    by (simp add: generate_question_with_answer_def chat_send_eq generation_failed_def Let_def
        split: sum.splits list.splits)
  have ev: "current_question (snd (evaluate_answer special svc index user_answer s))
            = current_question s"
  proof (cases "current_question s = []")
    case True
    then show ?thesis by (simp add: evaluate_answer_def)
  next
    case False
    then show ?thesis by (simp add: evaluate_answer_grade grade_frame lazy_answer_frame)
  qed
  have keep: "correct_answer (snd (evaluate_answer special svc index user_answer s))
              = correct_answer s"
    if "correct_answer s \<noteq> []"
  proof (cases "current_question s = []")
    case True
    then show ?thesis by (simp add: evaluate_answer_def)
  next
    case False
    with that show ?thesis by (simp add: evaluate_answer_grade grade_frame lazy_answer_frame)
  qed
  have general: "current_question (snd (handle_general_question svc question s)) = current_question s
      \<and> correct_answer (snd (handle_general_question svc question s)) = correct_answer s"
    by (simp add: handle_general_question_def chat_send_eq split: sum.splits)
  from both ev keep general show ?thesis
    by (simp add: generate_answer_frame get_relevant_resource_frame)
qed

theorem question_and_answer_writes_witness:
  "chat (quiz [Inr (lit ''QUESTION: q ANSWER: a'')] (lit ''Q1'') (lit ''A1''))
     = chat (quiz [Inr (lit ''QUESTION: q ANSWER: a'')] (lit ''Q2'') [])
   \<and> current_question (snd (generate_question_with_answer scripted (lit ''budgeting'')
         (quiz [Inr (lit ''QUESTION: q ANSWER: a'')] (lit ''Q1'') (lit ''A1''))))
     = current_question (snd (generate_question_with_answer scripted (lit ''budgeting'')
         (quiz [Inr (lit ''QUESTION: q ANSWER: a'')] (lit ''Q2'') [])))
   \<and> correct_answer (snd (generate_question_with_answer scripted (lit ''budgeting'')
         (quiz [Inr (lit ''QUESTION: q ANSWER: a'')] (lit ''Q1'') (lit ''A1''))))
     = correct_answer (snd (generate_question_with_answer scripted (lit ''budgeting'')
         (quiz [Inr (lit ''QUESTION: q ANSWER: a'')] (lit ''Q2'') [])))
   \<and> correct_answer (quiz [Inr (lit ''CORRECT'')] (lit ''Q1'') (lit ''A1'')) \<noteq> []
   \<and> correct_answer (snd (evaluate_answer plain scripted Pinecone_Index (lit ''my answer'')
         (quiz [Inr (lit ''CORRECT'')] (lit ''Q1'') (lit ''A1'')))) = lit ''A1''"
  using question_and_answer_writes
      [where ?s1.0 = "quiz [Inr (lit ''QUESTION: q ANSWER: a'')] (lit ''Q1'') (lit ''A1'')"
         and ?s2.0 = "quiz [Inr (lit ''QUESTION: q ANSWER: a'')] (lit ''Q2'') []"
         and svc = scripted and topic = "lit ''budgeting''"]
    question_and_answer_writes
      [where svc = scripted and s = "quiz [Inr (lit ''CORRECT'')] (lit ''Q1'') (lit ''A1'')"
         and special = plain and index = Pinecone_Index and user_answer = "lit ''my answer''"]
  by (simp add: quiz_def)

text \<open>
  The claim as stated fails: \<open>generate_answer\<close> stores a reference answer and leaves the
  question as it was, and \<open>generate_question\<close> stores a question and leaves the reference
  answer of the question before.
\<close>

theorem question_and_answer_writes_counterexample:
  "correct_answer (quiz [Inr (lit ''A'')] (lit ''Q'') []) = []
   \<and> correct_answer (snd (generate_answer scripted (quiz [Inr (lit ''A'')] (lit ''Q'') [])))
       = lit ''A''
   \<and> current_question (snd (generate_answer scripted (quiz [Inr (lit ''A'')] (lit ''Q'') [])))
       = lit ''Q''
   \<and> current_question (quiz [Inr (lit ''Q2'')] (lit ''Q1'') (lit ''A1'')) = lit ''Q1''
   \<and> current_question (snd (generate_question scripted (lit ''budgeting'')
        (quiz [Inr (lit ''Q2'')] (lit ''Q1'') (lit ''A1'')))) = lit ''Q2''
   \<and> correct_answer (snd (generate_question scripted (lit ''budgeting'')
        (quiz [Inr (lit ''Q2'')] (lit ''Q1'') (lit ''A1'')))) = lit ''A1''"
  by code_simp

subsection \<open>C4: the parsed question and answer\<close>

text \<open>
  Claim C4, as amended. Let the reply hold \<open>QUESTION:\<close>, and let its stripped text be
  \<open>before @ ANSWER: @ after\<close> with this \<open>ANSWER:\<close> the leftmost one. Then
  \<open>generate_question_with_answer\<close> stores as question \<open>before\<close> with every \<open>QUESTION:\<close>
  removed, stripped; stores as answer the text of \<open>after\<close> up to the next \<open>ANSWER:\<close> (all
  of \<open>after\<close> when there is none), stripped; and returns the stored question. When
  \<open>before\<close> is \<open>QUESTION:\<close> followed by a text \<open>q\<close> without that marker, the question is
  \<open>q\<close> stripped. By \<open>first_occurrence\<close> every text that holds \<open>ANSWER:\<close> has this shape.
\<close>

theorem generate_question_with_answer_parsed:
  assumes "generation_reply svc topic s = Inr text"
    and "is_in (lit ''QUESTION:'') text"
    and "strip text = before @ lit ''ANSWER:'' @ after"
    and "\<not> is_in (lit ''ANSWER:'') (before @ lit ''ANSWER'')"
  shows "current_question (snd (generate_question_with_answer svc topic s))
           = strip (replace before (lit ''QUESTION:'') [])
       \<and> correct_answer (snd (generate_question_with_answer svc topic s))
           = strip (case str_partition (lit ''ANSWER:'') after of
                      None \<Rightarrow> after | Some (piece, rest) \<Rightarrow> piece)
       \<and> fst (generate_question_with_answer svc topic s)
           = Inr (current_question (snd (generate_question_with_answer svc topic s)))
       \<and> (\<not> is_in (lit ''ANSWER:'') after \<longrightarrow>
            correct_answer (snd (generate_question_with_answer svc topic s)) = strip after)
       \<and> (before = lit ''QUESTION:'' @ q \<and> \<not> is_in (lit ''QUESTION:'') q \<longrightarrow>
            current_question (snd (generate_question_with_answer svc topic s)) = strip q)"
proof -
  have "str_partition (lit ''ANSWER:'') (before @ lit ''ANSWER:'' @ after) = Some (before, after)"
    using assms(4) by (intro str_partition_first) simp_all
  with assms(3) have part: "str_partition (lit ''ANSWER:'') (strip text) = Some (before, after)"
    by simp
  note run = generate_question_with_answer_split [OF assms(1) assms(2) part]
  have single: "\<not> is_in (lit ''ANSWER:'') after \<Longrightarrow>
      (case str_partition (lit ''ANSWER:'') after of
         None \<Rightarrow> after | Some (piece, rest) \<Rightarrow> piece) = after"
    by (simp add: str_partition_None)
  have plain_question: "replace (lit ''QUESTION:'' @ q) (lit ''QUESTION:'') [] = q"
    if "\<not> is_in (lit ''QUESTION:'') q" for q
  proof -
    have "\<not> is_in (lit ''QUESTION:'') ([] @ butlast (lit ''QUESTION:''))"
      by code_simp
    then have "replace_all (lit ''QUESTION:'') [] ([] @ lit ''QUESTION:'' @ q)
          = [] @ [] @ replace_all (lit ''QUESTION:'') [] q"
      by (intro replace_all_first) simp_all
    with that show ?thesis
      by (simp add: replace_def replace_all_None)
  qed
  show ?thesis
    by (simp add: run single plain_question del: append.simps)
qed

text \<open>
  The scenario of the specification, and a reply whose question is a no-break space
  (U+00A0) and whose answer ends with a next-line character (U+0085): \<open>strip\<close> removes both.
\<close>

theorem generate_question_with_answer_parsed_witness:
  "generation_reply scripted (lit ''budgeting'')
     (quiz [Inr (lit ''QUESTION: How much should you save?'' @ newline
                 @ lit ''ANSWER: At least 20% of income.'')] [] [])
   = Inr (lit ''QUESTION: How much should you save?'' @ newline
          @ lit ''ANSWER: At least 20% of income.'')
   \<and> is_in (lit ''QUESTION:'')
        (lit ''QUESTION: How much should you save?'' @ newline
         @ lit ''ANSWER: At least 20% of income.'')
   \<and> strip (lit ''QUESTION: How much should you save?'' @ newline
             @ lit ''ANSWER: At least 20% of income.'')
       = (lit ''QUESTION: How much should you save?'' @ newline) @ lit ''ANSWER:''
         @ lit '' At least 20% of income.''
   \<and> \<not> is_in (lit ''ANSWER:'')
          ((lit ''QUESTION: How much should you save?'' @ newline) @ lit ''ANSWER'')
   \<and> current_question (snd (generate_question_with_answer scripted (lit ''budgeting'')
        (quiz [Inr (lit ''QUESTION: How much should you save?'' @ newline
                    @ lit ''ANSWER: At least 20% of income.'')] [] [])))
       = lit ''How much should you save?''
   \<and> correct_answer (snd (generate_question_with_answer scripted (lit ''budgeting'')
        (quiz [Inr (lit ''QUESTION: How much should you save?'' @ newline
                    @ lit ''ANSWER: At least 20% of income.'')] [] [])))
       = lit ''At least 20% of income.''
   \<and> fst (generate_question_with_answer scripted (lit ''budgeting'')
        (quiz [Inr (lit ''QUESTION: How much should you save?'' @ newline
                    @ lit ''ANSWER: At least 20% of income.'')] [] []))
       = Inr (lit ''How much should you save?'')
   \<and> current_question (snd (generate_question_with_answer scripted (lit ''budgeting'')
        (quiz [Inr (lit ''QUESTION:'' @ [0xA0] @ lit ''ANSWER: x'' @ [0x85])] [] [])))
       = []
   \<and> correct_answer (snd (generate_question_with_answer scripted (lit ''budgeting'')
        (quiz [Inr (lit ''QUESTION:'' @ [0xA0] @ lit ''ANSWER: x'' @ [0x85])] [] [])))
       = lit ''x''"
proof -
  let ?text = "lit ''QUESTION: How much should you save?'' @ newline
               @ lit ''ANSWER: At least 20% of income.''"
  let ?s = "quiz [Inr ?text] [] []"
  let ?q = "lit '' How much should you save?'' @ newline"
  have r: "generation_reply scripted (lit ''budgeting'') ?s = Inr ?text"
    by (simp add: generation_reply_def quiz_def scripted_def scripted_send_def)
  have q: "is_in (lit ''QUESTION:'') ?text"
    by code_simp
  have d: "strip ?text = (lit ''QUESTION: How much should you save?'' @ newline) @ lit ''ANSWER:''
         @ lit '' At least 20% of income.''"
    by code_simp
  have f: "\<not> is_in (lit ''ANSWER:'')
             ((lit ''QUESTION: How much should you save?'' @ newline) @ lit ''ANSWER'')"
    by code_simp
  have n: "\<not> is_in (lit ''ANSWER:'') (lit '' At least 20% of income.'')"
    "\<not> is_in (lit ''QUESTION:'') ?q"
    by code_simp+
  have v: "strip ?q = lit ''How much should you save?''"
    "strip (lit '' At least 20% of income.'') = lit ''At least 20% of income.''"
    by code_simp+
  have e: "lit ''QUESTION: How much should you save?'' @ newline = lit ''QUESTION:'' @ ?q"
    by (simp add: lit_def)
  note run = generate_question_with_answer_parsed [OF r q d f, where q = ?q]
  from run e n(2) have "current_question (snd (generate_question_with_answer scripted
      (lit ''budgeting'') ?s)) = strip ?q"
    by blast
  then have cq: "current_question (snd (generate_question_with_answer scripted
      (lit ''budgeting'') ?s)) = lit ''How much should you save?''"
    by (simp only: v)
  from run n(1) have "correct_answer (snd (generate_question_with_answer scripted
      (lit ''budgeting'') ?s)) = strip (lit '' At least 20% of income.'')"
    by blast
  then have ca: "correct_answer (snd (generate_question_with_answer scripted
      (lit ''budgeting'') ?s)) = lit ''At least 20% of income.''"
    by (simp only: v)
  from run have "fst (generate_question_with_answer scripted (lit ''budgeting'') ?s)
      = Inr (current_question (snd (generate_question_with_answer scripted
          (lit ''budgeting'') ?s)))"
    by blast
  then have rt: "fst (generate_question_with_answer scripted (lit ''budgeting'') ?s)
      = Inr (lit ''How much should you save?'')"
    by (simp only: cq)
  let ?nbsp = "lit ''QUESTION:'' @ [0xA0] @ lit ''ANSWER: x'' @ [0x85]"
  let ?s2 = "quiz [Inr ?nbsp] [] []"
  have r2: "generation_reply scripted (lit ''budgeting'') ?s2 = Inr ?nbsp"
    by (simp add: generation_reply_def quiz_def scripted_def scripted_send_def)
  have q2: "is_in (lit ''QUESTION:'') ?nbsp"
    by code_simp
  have d2: "strip ?nbsp = (lit ''QUESTION:'' @ [0xA0]) @ lit ''ANSWER:'' @ lit '' x''"
    by code_simp
  have f2: "\<not> is_in (lit ''ANSWER:'') ((lit ''QUESTION:'' @ [0xA0]) @ lit ''ANSWER'')"
    by code_simp
  have n2: "\<not> is_in (lit ''ANSWER:'') (lit '' x'')" "\<not> is_in (lit ''QUESTION:'') [0xA0]"
    by code_simp+
  have v2: "strip [0xA0] = []" "strip (lit '' x'') = lit ''x''"
    by code_simp+
  note run2 = generate_question_with_answer_parsed [OF r2 q2 d2 f2, where q = "[0xA0]"]
  from run2 n2(2) have "current_question (snd (generate_question_with_answer scripted
      (lit ''budgeting'') ?s2)) = strip [0xA0]"
    by blast
  then have cq2: "current_question (snd (generate_question_with_answer scripted
      (lit ''budgeting'') ?s2)) = []"
    by (simp only: v2)
  from run2 n2(1) have "correct_answer (snd (generate_question_with_answer scripted
      (lit ''budgeting'') ?s2)) = strip (lit '' x'')"
    by blast
  then have ca2: "correct_answer (snd (generate_question_with_answer scripted
      (lit ''budgeting'') ?s2)) = lit ''x''"
    by (simp only: v2)
  from r q d f cq ca rt cq2 ca2 show ?thesis
    by (intro conjI)
qed

text \<open>
  The claim as stated fails when \<open>ANSWER:\<close> occurs twice: the stored answer stops at the
  second marker and is not the entire text after the first.
\<close>

theorem generate_question_with_answer_parsed_counterexample:
  "generation_reply scripted (lit ''budgeting'')
     (quiz [Inr (lit ''QUESTION: q ANSWER: a ANSWER: b'')] [] [])
     = Inr (lit ''QUESTION: q ANSWER: a ANSWER: b'')
   \<and> is_in (lit ''QUESTION:'') (lit ''QUESTION: q ANSWER: a ANSWER: b'')
   \<and> is_in (lit ''ANSWER:'') (lit ''QUESTION: q ANSWER: a ANSWER: b'')
   \<and> strip (text_after_marker (lit ''ANSWER:'') (lit ''QUESTION: q ANSWER: a ANSWER: b''))
       = lit ''a ANSWER: b''
   \<and> correct_answer (snd (generate_question_with_answer scripted (lit ''budgeting'')
        (quiz [Inr (lit ''QUESTION: q ANSWER: a ANSWER: b'')] [] []))) = lit ''a''"
  by code_simp

subsection \<open>C5: when a resource lookup is attempted\<close>

text \<open>
  Claim C5 holds of the guards at lines 119 and 135 and fails in the running program.
  Without \<open>PINECONE_API_KEY\<close> lines 33 to 35 set the index to \<open>None\<close> and announce that the
  resource lookup is disabled; line 207 then binds the name \<open>index\<close> to a view function.
  The guards find it truthy: for an answer judged incorrect the reference answer is
  encoded and the lookup is attempted, though no index is configured. With an index
  configured the lookup is attempted as well, and never reaches the index.
\<close>

theorem evaluate_answer_lookup_unconfigured:
  "configured_index None False = NoneType
   \<and> module_index None False = View_Function
   \<and> fst (evaluate_answer plain scripted (module_index None False) (lit ''my answer'')
          (quiz [Inr (lit ''INCORRECT'')] (lit ''Q'') (lit ''A'')))
       = Inr \<lparr>is_correct = False, message = lit ''INCORRECT'', answer = Some (lit ''A''),
              resource = None\<rparr>
   \<and> lookup_calls (calls (snd (evaluate_answer plain scripted (module_index None False)
          (lit ''my answer'') (quiz [Inr (lit ''INCORRECT'')] (lit ''Q'') (lit ''A'')))))
       = [Encode (lit ''A'')]
   \<and> configured_index (Some (lit ''key'')) True = Pinecone_Index
   \<and> module_index (Some (lit ''key'')) True = View_Function
   \<and> fst (evaluate_answer plain scripted (module_index (Some (lit ''key'')) True)
          (lit ''my answer'') (quiz [Inr (lit ''INCORRECT'')] (lit ''Q'') (lit ''A'')))
       = Inr \<lparr>is_correct = False, message = lit ''INCORRECT'', answer = Some (lit ''A''),
              resource = None\<rparr>
   \<and> lookup_calls (calls (snd (evaluate_answer plain scripted
          (module_index (Some (lit ''key'')) True) (lit ''my answer'')
          (quiz [Inr (lit ''INCORRECT'')] (lit ''Q'') (lit ''A'')))))
       = [Encode (lit ''A'')]"
  by code_simp

subsection \<open>C6: evaluation never raises\<close>

text \<open>
  Claim C6. \<open>evaluate_answer\<close> never raises. When a question is present and the grading
  call raises \<open>e\<close>, the result has \<open>is_correct\<close> false, the message
  \<open>Error evaluating answer:\<close> followed by \<open>str(e)\<close>, and as \<open>correct_answer\<close> the stored
  reference answer, or \<open>Answer not available\<close> when that is empty.
\<close>

theorem evaluate_answer_never_raises:
  "(\<nexists>e. fst (evaluate_answer special svc index user_answer s) = Inl e) \<and>
   (current_question s \<noteq> [] \<and> grading_reply svc user_answer s = Inl e \<longrightarrow>
      fst (evaluate_answer special svc index user_answer s) =
        Inr \<lparr>is_correct = False,
             message = lit ''Error evaluating answer: '' @ str e,
             answer = Some (if correct_answer (snd (evaluate_answer special svc index
                                                      user_answer s)) = []
                            then lit ''Answer not available''
                            else correct_answer (snd (evaluate_answer special svc index
                                                        user_answer s))),
             resource = None\<rparr>)"
proof (intro conjI impI)
  show "\<nexists>e. fst (evaluate_answer special svc index user_answer s) = Inl e"
  proof (cases "current_question s = []")
    case True
    then show ?thesis by (simp add: evaluate_answer_def)
  next
    case False
    then show ?thesis
      using grade_returns [of special svc index user_answer "snd (lazy_answer svc s)"]
      by (auto simp add: evaluate_answer_grade)
  qed
next
  let ?s1 = "snd (lazy_answer svc s)"
  assume a: "current_question s \<noteq> [] \<and> grading_reply svc user_answer s = Inl e"
  then have ev: "evaluate_answer special svc index user_answer s
                 = grade special svc index user_answer ?s1"
    by (simp add: evaluate_answer_grade)
  from a have "fst (send_message svc (chat ?s1)
             (safety_instruction @ lit '' ''
              @ evaluation_instruction (current_question ?s1) user_answer (correct_answer ?s1)))
           = Inl e"
    by (simp add: grading_reply_def Let_def)
  from grade_failure [OF this]
  show "fst (evaluate_answer special svc index user_answer s) =
        Inr \<lparr>is_correct = False,
             message = lit ''Error evaluating answer: '' @ str e,
             answer = Some (if correct_answer (snd (evaluate_answer special svc index
                                                      user_answer s)) = []
                            then lit ''Answer not available''
                            else correct_answer (snd (evaluate_answer special svc index
                                                        user_answer s))),
             resource = None\<rparr>"
    by (simp add: ev)
qed

theorem evaluate_answer_never_raises_witness:
  "current_question (quiz [Inl (Exception (lit ''quota exceeded''))] (lit ''Q'') (lit ''A''))
     \<noteq> []
   \<and> grading_reply scripted (lit ''my answer'')
        (quiz [Inl (Exception (lit ''quota exceeded''))] (lit ''Q'') (lit ''A''))
       = Inl (Exception (lit ''quota exceeded''))
   \<and> fst (evaluate_answer plain scripted Pinecone_Index (lit ''my answer'')
            (quiz [Inl (Exception (lit ''quota exceeded''))] (lit ''Q'') (lit ''A'')))
       = Inr \<lparr>is_correct = False,
              message = lit ''Error evaluating answer: '' @ lit ''quota exceeded'',
              answer = Some (lit ''A''), resource = None\<rparr>
   \<and> grading_reply scripted (lit ''my answer'')
        (quiz [Inr [], Inl (StopCandidateException (lit ''blocked''))] (lit ''Q'') [])
       = Inl (StopCandidateException (lit ''blocked''))
   \<and> fst (evaluate_answer plain scripted Pinecone_Index (lit ''my answer'')
            (quiz [Inr [], Inl (StopCandidateException (lit ''blocked''))] (lit ''Q'') []))
       = Inr \<lparr>is_correct = False,
              message = lit ''Error evaluating answer: '' @ lit ''blocked'',
              answer = Some (lit ''Answer not available''), resource = None\<rparr>"
proof -
  let ?full = "quiz [Inl (Exception (lit ''quota exceeded''))] (lit ''Q'') (lit ''A'')"
  let ?bare = "quiz [Inr [], Inl (StopCandidateException (lit ''blocked''))] (lit ''Q'') []"
  have q1: "current_question ?full \<noteq> []" and q2: "current_question ?bare \<noteq> []"
    by (simp_all add: quiz_def)
  have g1: "grading_reply scripted (lit ''my answer'') ?full
            = Inl (Exception (lit ''quota exceeded''))"
    by (simp add: grading_reply_def lazy_answer_def quiz_def scripted_def scripted_send_def)
  have g2: "grading_reply scripted (lit ''my answer'') ?bare
            = Inl (StopCandidateException (lit ''blocked''))"
    by code_simp
  have a1: "correct_answer (snd (evaluate_answer plain scripted Pinecone_Index
              (lit ''my answer'') ?full)) = lit ''A''"
    by (simp add: evaluate_answer_grade grade_frame lazy_answer_frame quiz_def)
  have a2: "correct_answer (snd (evaluate_answer plain scripted Pinecone_Index
              (lit ''my answer'') ?bare)) = []"
    by code_simp
  from evaluate_answer_never_raises
    [where special = plain and svc = scripted and index = Pinecone_Index
       and user_answer = "lit ''my answer''" and s = ?full
       and e = "Exception (lit ''quota exceeded'')"] q1 g1 a1
  have r1: "fst (evaluate_answer plain scripted Pinecone_Index (lit ''my answer'') ?full)
       = Inr \<lparr>is_correct = False,
              message = lit ''Error evaluating answer: '' @ lit ''quota exceeded'',
              answer = Some (lit ''A''), resource = None\<rparr>"
    by simp
  from evaluate_answer_never_raises
    [where special = plain and svc = scripted and index = Pinecone_Index
       and user_answer = "lit ''my answer''" and s = ?bare
       and e = "StopCandidateException (lit ''blocked'')"] q2 g2 a2
  have r2: "fst (evaluate_answer plain scripted Pinecone_Index (lit ''my answer'') ?bare)
       = Inr \<lparr>is_correct = False,
              message = lit ''Error evaluating answer: '' @ lit ''blocked'',
              answer = Some (lit ''Answer not available''), resource = None\<rparr>"
    by simp
  from q1 g1 r1 g2 r2 show ?thesis
    by (intro conjI)
qed

subsection \<open>C7: the fallback pairs\<close>

text \<open>
  Claim C7. When the reply lacks \<open>QUESTION:\<close> or \<open>ANSWER:\<close>,
  \<open>generate_question_with_answer\<close> stores the credit card pair, whatever the reply says,
  and the call to the chat is the only call it makes. When the call raises, it stores the
  emergency fund pair.
\<close>

theorem generate_question_with_answer_fallback:
  "(generation_reply svc topic s = Inr reply
      \<and> (\<not> is_in (lit ''QUESTION:'') reply \<or> \<not> is_in (lit ''ANSWER:'') reply) \<longrightarrow>
    generate_question_with_answer svc topic s =
      (Inr credit_card_question,
       s\<lparr>chat := snd (send_message svc (chat s)
                        (safety_instruction @ lit '' '' @ combined_instruction topic)),
         calls := calls s
           @ [Send_Message (safety_instruction @ lit '' '' @ combined_instruction topic)],
         current_question := credit_card_question,
         correct_answer := credit_card_answer\<rparr>))
   \<and> (generation_reply svc topic s = Inl e \<longrightarrow>
    generate_question_with_answer svc topic s =
      (Inr emergency_fund_question,
       s\<lparr>chat := snd (send_message svc (chat s)
                        (safety_instruction @ lit '' '' @ combined_instruction topic)),
         calls := calls s
           @ [Send_Message (safety_instruction @ lit '' '' @ combined_instruction topic)],
         current_question := emergency_fund_question,
         correct_answer := emergency_fund_answer\<rparr>))"
  using generate_question_with_answer_malformed [of svc topic s reply]
    generate_question_with_answer_failed [of svc topic s e]
  by (auto simp add: chat_send_eq)

theorem generate_question_with_answer_fallback_witness:
  "generation_reply scripted (lit ''budgeting'')
     (quiz [Inr (lit ''Tell me more'')] (lit ''Q'') (lit ''A''))
     = Inr (lit ''Tell me more'')
   \<and> \<not> is_in (lit ''QUESTION:'') (lit ''Tell me more'')
   \<and> generate_question_with_answer scripted (lit ''budgeting'')
        (quiz [Inr (lit ''Tell me more'')] (lit ''Q'') (lit ''A''))
       = (Inr (lit ''What factors should you consider when choosing a credit card?''),
          \<lparr>chat = [],
           current_question
             = lit ''What factors should you consider when choosing a credit card?'',
           correct_answer = credit_card_answer,
           calls = [Send_Message (safety_instruction @ lit '' ''
                                  @ combined_instruction (lit ''budgeting''))]\<rparr>)
   \<and> generation_reply scripted (lit ''budgeting'')
        (quiz [Inl (Exception (lit ''quota exceeded''))] (lit ''Q'') (lit ''A''))
     = Inl (Exception (lit ''quota exceeded''))
   \<and> generate_question_with_answer scripted (lit ''budgeting'')
        (quiz [Inl (Exception (lit ''quota exceeded''))] (lit ''Q'') (lit ''A''))
       = (Inr (lit ''What is an emergency fund and why is it important?''),
          \<lparr>chat = [],
           current_question = lit ''What is an emergency fund and why is it important?'',
           correct_answer = emergency_fund_answer,
           calls = [Send_Message (safety_instruction @ lit '' ''
                                  @ combined_instruction (lit ''budgeting''))]\<rparr>)"
proof -
  let ?odd = "quiz [Inr (lit ''Tell me more'')] (lit ''Q'') (lit ''A'')"
  let ?down = "quiz [Inl (Exception (lit ''quota exceeded''))] (lit ''Q'') (lit ''A'')"
  have g1: "generation_reply scripted (lit ''budgeting'') ?odd = Inr (lit ''Tell me more'')"
    by (simp add: generation_reply_def quiz_def scripted_def scripted_send_def)
  have m: "\<not> is_in (lit ''QUESTION:'') (lit ''Tell me more'')"
    by code_simp
  have g2: "generation_reply scripted (lit ''budgeting'') ?down
            = Inl (Exception (lit ''quota exceeded''))"
    by (simp add: generation_reply_def quiz_def scripted_def scripted_send_def)
  from generate_question_with_answer_fallback
    [where svc = scripted and topic = "lit ''budgeting''" and s = ?odd
       and reply = "lit ''Tell me more''"] g1 m
  have r1: "generate_question_with_answer scripted (lit ''budgeting'') ?odd
       = (Inr (lit ''What factors should you consider when choosing a credit card?''),
          \<lparr>chat = [],
           current_question
             = lit ''What factors should you consider when choosing a credit card?'',
           correct_answer = credit_card_answer,
           calls = [Send_Message (safety_instruction @ lit '' ''
                                  @ combined_instruction (lit ''budgeting''))]\<rparr>)"
    by (simp add: quiz_def scripted_def scripted_send_def credit_card_question_def)
  from generate_question_with_answer_fallback
    [where svc = scripted and topic = "lit ''budgeting''" and s = ?down
       and e = "Exception (lit ''quota exceeded'')"] g2
  have r2: "generate_question_with_answer scripted (lit ''budgeting'') ?down
       = (Inr (lit ''What is an emergency fund and why is it important?''),
          \<lparr>chat = [],
           current_question = lit ''What is an emergency fund and why is it important?'',
           correct_answer = emergency_fund_answer,
           calls = [Send_Message (safety_instruction @ lit '' ''
                                  @ combined_instruction (lit ''budgeting''))]\<rparr>)"
    by (simp add: quiz_def scripted_def scripted_send_def emergency_fund_question_def)
  from g1 m r1 g2 r2 show ?thesis
    by (intro conjI)
qed

subsection \<open>C8: when the stored question is empty\<close>

text \<open>
  Claim C8, as amended. After \<open>generate_question_with_answer\<close> the stored question is empty
  exactly when the reply leaves the question blank; it is not empty when the call raises,
  when a marker is missing, or when some character other than whitespace remains before
  the first \<open>ANSWER:\<close> once the \<open>QUESTION:\<close> markers are removed.
\<close>

theorem generate_question_with_answer_blank:
  "(current_question (snd (generate_question_with_answer svc topic s)) = [])
   = blank_question (generation_reply svc topic s)"
proof (cases "generation_reply svc topic s")
  case (Inl e)
  then show ?thesis
    by (simp add: generate_question_with_answer_failed blank_question_def
        emergency_fund_question_def)
next
  case reply: (Inr response)
  show ?thesis
  proof (cases "is_in (lit ''QUESTION:'') response \<and> is_in (lit ''ANSWER:'') response")
    case False
    then have "\<not> is_in (lit ''QUESTION:'') response
               \<or> str_partition (lit ''ANSWER:'') (strip response) = None"
      by (auto simp add: str_partition_None marker_strip)
    with reply False show ?thesis
      by (auto simp add: generate_question_with_answer_malformed blank_question_def
          credit_card_question_def)
  next
    case True
    then have "str_partition (lit ''ANSWER:'') (strip response) \<noteq> None"
      by (simp add: str_partition_None_iff marker_strip)
    then obtain before after where
      first: "str_partition (lit ''ANSWER:'') (strip response) = Some (before, after)"
      by auto
    from True have q: "is_in (lit ''QUESTION:'') response" ..
    note run = generate_question_with_answer_split [OF reply q first]
    show ?thesis
      using reply q first
      by (simp add: run blank_question_def strip_empty_iff list_all_iff)
  qed
qed

text \<open>
  Two replies with both markers: one with a question between them, and one with a no-break
  space (U+00A0) only, which leaves the question blank.
\<close>

theorem generate_question_with_answer_blank_witness:
  "\<not> blank_question (generation_reply scripted (lit ''budgeting'')
        (quiz [Inr (lit ''QUESTION: q ANSWER: a'')] [] []))
   \<and> current_question (snd (generate_question_with_answer scripted (lit ''budgeting'')
        (quiz [Inr (lit ''QUESTION: q ANSWER: a'')] [] []))) \<noteq> []
   \<and> blank_question (generation_reply scripted (lit ''budgeting'')
        (quiz [Inr (lit ''QUESTION:'' @ [0xA0] @ lit ''ANSWER: x'')] [] []))
   \<and> current_question (snd (generate_question_with_answer scripted (lit ''budgeting'')
        (quiz [Inr (lit ''QUESTION:'' @ [0xA0] @ lit ''ANSWER: x'')] [] []))) = []"
proof -
  let ?full = "quiz [Inr (lit ''QUESTION: q ANSWER: a'')] [] []"
  let ?blank = "quiz [Inr (lit ''QUESTION:'' @ [0xA0] @ lit ''ANSWER: x'')] [] []"
  have b1: "\<not> blank_question (generation_reply scripted (lit ''budgeting'') ?full)"
    by code_simp
  have b2: "blank_question (generation_reply scripted (lit ''budgeting'') ?blank)"
    by code_simp
  from generate_question_with_answer_blank
    [where svc = scripted and topic = "lit ''budgeting''" and s = ?full] b1
  have n1: "current_question (snd (generate_question_with_answer scripted (lit ''budgeting'')
              ?full)) \<noteq> []"
    by (simp only: simp_thms)
  from generate_question_with_answer_blank
    [where svc = scripted and topic = "lit ''budgeting''" and s = ?blank] b2
  have n2: "current_question (snd (generate_question_with_answer scripted (lit ''budgeting'')
              ?blank)) = []"
    by (simp only: simp_thms)
  from b1 n1 b2 n2 show ?thesis
    by (intro conjI)
qed

text \<open>
  The claim as stated fails for a reply with both markers and nothing between them.
\<close>

theorem generate_question_with_answer_blank_counterexample:
  "current_question (snd (generate_question_with_answer scripted (lit ''budgeting'')
      (quiz [Inr (lit ''QUESTION: ANSWER: x'')] [] []))) = []"
  by code_simp

subsection \<open>C9: a general question leaves the quiz alone\<close>

text \<open>
  Claim C9. \<open>handle_general_question\<close> leaves \<open>current_question\<close> and \<open>correct_answer\<close> as
  they were, and returns the text of the chat as it is, or the apology when the call raises.
\<close>

theorem handle_general_question_frame:
  "current_question (snd (handle_general_question svc question s)) = current_question s
   \<and> correct_answer (snd (handle_general_question svc question s)) = correct_answer s
   \<and> fst (handle_general_question svc question s) =
       (case fst (send_message svc (chat s)
                    (safety_instruction @ lit '' '' @ general_instruction question)) of
          Inr response \<Rightarrow> Inr response
        | Inl e \<Rightarrow>
            Inr (lit ''I apologize, but I'm having trouble answering that question right now. Please try again.''))"
  by (simp add: handle_general_question_def chat_send_eq split: sum.splits)

subsection \<open>C10: the empty string is the absent question\<close>

text \<open>
  Claim C10. A session whose \<open>current_question\<close> is the empty string, as in the initial
  session or after an empty parsed question was stored, takes the short-circuit path of
  \<open>evaluate_answer\<close> and of \<open>generate_answer\<close>: both answer \<open>No question available.\<close> as they
  do for the initial session, and the session is left as it was.
\<close>

theorem empty_question_short_circuit:
  assumes "current_question s = []"
  shows "evaluate_answer special svc index user_answer s =
           (Inr \<lparr>is_correct = False, message = lit ''No question available.'',
                 answer = None, resource = None\<rparr>, s)
         \<and> generate_answer svc s = (Inr (lit ''No question available.''), s)
         \<and> fst (evaluate_answer special svc index user_answer s)
             = fst (evaluate_answer special svc index user_answer (init c))
         \<and> fst (generate_answer svc s) = fst (generate_answer svc (init c))
         \<and> current_question (init c :: ('c, 'v) session) = []"
  using assms by (simp add: evaluate_answer_def generate_answer_def init_def)

theorem empty_question_short_circuit_witness:
  "current_question (snd (generate_question_with_answer scripted (lit ''budgeting'')
      (quiz [Inr (lit ''QUESTION: ANSWER: x''), Inr (lit ''CORRECT'')] [] []))) = []
   \<and> fst (evaluate_answer plain scripted Pinecone_Index (lit ''my answer'')
        (snd (generate_question_with_answer scripted (lit ''budgeting'')
           (quiz [Inr (lit ''QUESTION: ANSWER: x''), Inr (lit ''CORRECT'')] [] []))))
       = Inr \<lparr>is_correct = False, message = lit ''No question available.'',
              answer = None, resource = None\<rparr>
   \<and> fst (generate_answer scripted
        (snd (generate_question_with_answer scripted (lit ''budgeting'')
           (quiz [Inr (lit ''QUESTION: ANSWER: x''), Inr (lit ''CORRECT'')] [] []))))
       = Inr (lit ''No question available.'')
   \<and> chat (snd (evaluate_answer plain scripted Pinecone_Index (lit ''my answer'')
        (snd (generate_question_with_answer scripted (lit ''budgeting'')
           (quiz [Inr (lit ''QUESTION: ANSWER: x''), Inr (lit ''CORRECT'')] [] [])))))
       = [Inr (lit ''CORRECT'')]"
proof -
  let ?s = "snd (generate_question_with_answer scripted (lit ''budgeting'')
      (quiz [Inr (lit ''QUESTION: ANSWER: x''), Inr (lit ''CORRECT'')] [] []))"
  have e: "current_question ?s = []"
    by code_simp
  have c: "chat ?s = [Inr (lit ''CORRECT'')]"
    by code_simp
  note run = empty_question_short_circuit
    [OF e, where special = plain and svc = scripted and index = Pinecone_Index
       and user_answer = "lit ''my answer''" and c = "[]"]
  from run have ev: "evaluate_answer plain scripted Pinecone_Index (lit ''my answer'') ?s =
           (Inr \<lparr>is_correct = False, message = lit ''No question available.'',
                 answer = None, resource = None\<rparr>, ?s)"
    by (rule conjunct1)
  from run have ga: "generate_answer scripted ?s = (Inr (lit ''No question available.''), ?s)"
    by blast
  show ?thesis
    by (simp only: ev ga e c fst_conv snd_conv simp_thms)
qed

end
